theory Spec2Isabelle
  imports Complex_Main
begin

section \<open>Weight vectors and values that carry a gradient\<close>

text \<open>
  The notebook works on two-element weight vectors. Their elements are 32-bit floats in
  the program; here they are real numbers, so every statement below is about the exact
  arithmetic of the formulas the notebook evaluates and says nothing about rounding.

  \<^verbatim>\<open>loss.backward()\<close> asks the automatic-differentiation library for the gradient of
  the scalar \<open>loss\<close> with respect to the two weights. A scalar that takes part in such a
  computation is modelled as its value together with its two partial derivatives; every
  arithmetic operation of the notebook propagates them by the chain rule, which is what
  the library's backward pass computes.
\<close>

type_synonym vec = "real \<times> real"

datatype dual = Dual (val: real) (d0: real) (d1: real)

type_synonym dvec = "dual \<times> dual"

text \<open>A weight vector that requires a gradient: \<open>W[0]\<close> and \<open>W[1]\<close> are the two variables.\<close>

definition leaf :: "vec \<Rightarrow> dvec" where
  "leaf w = (Dual (fst w) 1 0, Dual (snd w) 0 1)"

text \<open>A plain array (the numpy meshes of the first cell): no derivative is tracked.\<close>

definition plain :: "vec \<Rightarrow> dvec" where
  "plain w = (Dual (fst w) 0 0, Dual (snd w) 0 0)"

text \<open>\<open>x - c\<close>, \<open>c * x\<close>, \<open>x ** n\<close>, \<open>x + y\<close> and \<open>abs(x)\<close>; the derivative of
  \<open>abs\<close> is the sign, which is 0 at 0.\<close>

definition d_sub_c :: "dual \<Rightarrow> real \<Rightarrow> dual" where
  "d_sub_c x c = Dual (val x - c) (d0 x) (d1 x)"

definition d_scale :: "real \<Rightarrow> dual \<Rightarrow> dual" where
  "d_scale c x = Dual (c * val x) (c * d0 x) (c * d1 x)"

definition d_pow :: "dual \<Rightarrow> nat \<Rightarrow> dual" where
  "d_pow x n = Dual (val x ^ n)
                    (of_nat n * val x ^ (n - 1) * d0 x)
                    (of_nat n * val x ^ (n - 1) * d1 x)"

definition d_add :: "dual \<Rightarrow> dual \<Rightarrow> dual" where
  "d_add x y = Dual (val x + val y) (d0 x + d0 y) (d1 x + d1 y)"

definition d_abs :: "dual \<Rightarrow> dual" where
  "d_abs x = Dual \<bar>val x\<bar> (sgn (val x) * d0 x) (sgn (val x) * d1 x)"

definition gradient :: "dual \<Rightarrow> vec" where
  "gradient l = (d0 l, d1 l)"

section \<open>The loss and the regularizers\<close>

text \<open>
  \<^verbatim>\<open>
  def loss_fn(W):
      return 0.5*(W[0]-3)**2 + 2.5*(W[1]-2)**2
  \<close>
\<close>

definition loss_fn :: "dvec \<Rightarrow> dual" where
  "loss_fn W = d_add (d_scale 0.5 (d_pow (d_sub_c (fst W) 3) 2))
                     (d_scale 2.5 (d_pow (d_sub_c (snd W) 2) 2))"

text \<open>The last cells redefine the loss:
  \<^verbatim>\<open>
  def loss_fn(W):
      return 0.5*(W[0]-0.3)**2 + 2.5*(W[1]-2)**2
  \<close>
\<close>

definition loss_fn_sparse :: "dvec \<Rightarrow> dual" where
  "loss_fn_sparse W = d_add (d_scale 0.5 (d_pow (d_sub_c (fst W) 0.3) 2))
                            (d_scale 2.5 (d_pow (d_sub_c (snd W) 2) 2))"

text \<open>The value of the loss at a point, as the first cell computes it on the mesh.\<close>

definition loss_value :: "vec \<Rightarrow> real" where
  "loss_value w = val (loss_fn (plain w))"

text \<open>
  The regularizers of the first cell, applied to numpy arrays:
  \<^verbatim>\<open>
  def L1_regularization(W):
      return abs(W[0]) + abs(W[1])

  def L2_regularization(W):
      return np.sqrt(W[0]**2 + W[1]**2)
  \<close>
\<close>

definition L1_regularization_np :: "vec \<Rightarrow> real" where
  "L1_regularization_np W = \<bar>fst W\<bar> + \<bar>snd W\<bar>"

definition L2_regularization_np :: "vec \<Rightarrow> real" where
  "L2_regularization_np W = sqrt ((fst W)\<^sup>2 + (snd W)\<^sup>2)"

text \<open>
  The regularizers of the training cell, applied to tensors that require a gradient:
  \<^verbatim>\<open>
  def L1_regularization(W):
      return W.norm(1)

  def L2_regularization(W):
      return W.pow(2).sum()
  \<close>
  \<open>norm(1)\<close> is the library's 1-norm, the sum of the absolute values of the elements;
  \<open>pow(2)\<close> squares each element and \<open>sum()\<close> adds the elements.
\<close>

definition norm_1 :: "dvec \<Rightarrow> dual" where
  "norm_1 W = d_add (d_abs (fst W)) (d_abs (snd W))"

definition pow_vec :: "dvec \<Rightarrow> nat \<Rightarrow> dvec" where
  "pow_vec W n = (d_pow (fst W) n, d_pow (snd W) n)"

definition sum_vec :: "dvec \<Rightarrow> dual" where
  "sum_vec W = d_add (fst W) (snd W)"

definition L1_regularization :: "dvec \<Rightarrow> dual" where
  "L1_regularization W = norm_1 W"

definition L2_regularization :: "dvec \<Rightarrow> dual" where
  "L2_regularization W = sum_vec (pow_vec W 2)"

section \<open>Tensors, variables and the training loop\<close>

text \<open>
  Several objects of the notebook can refer to the same tensor storage:
  \<open>Variable(initial_guess)\<close> shares the storage of \<open>initial_guess\<close>, \<open>W.data\<close>
  shares the storage of \<open>W\<close>, and \<open>t.numpy()\<close> is an array over the storage of \<open>t\<close>.
  The storages are therefore kept in an explicit store, a list indexed by address; a
  tensor or array is the address of its storage. An arithmetic expression such as
  \<open>W.data - lr * W.grad.data\<close> builds its result in a new storage, \<open>clone()\<close> copies
  into a new storage, and the assignment \<open>W.data = t\<close> makes \<open>W\<close> refer to the storage
  of \<open>t\<close>; none of them writes into a storage that exists already.
\<close>

type_synonym store = "vec list"

record variable =
  data :: nat
  grad :: "vec option"

definition new_tensor :: "vec \<Rightarrow> store \<Rightarrow> nat \<times> store" where
  "new_tensor v s = (length s, s @ [v])"

definition clone :: "nat \<Rightarrow> store \<Rightarrow> nat \<times> store" where
  "clone t s = new_tensor (s ! t) s"

text \<open>\<open>Variable(t, requires_grad=True)\<close>: a new variable over the storage of \<open>t\<close>, with
  no gradient yet.\<close>

definition Variable :: "nat \<Rightarrow> variable" where
  "Variable t = \<lparr>data = t, grad = None\<rparr>"

definition vsub :: "vec \<Rightarrow> vec \<Rightarrow> vec" where
  "vsub u v = (fst u - fst v, snd u - snd v)"

definition vadd :: "vec \<Rightarrow> vec \<Rightarrow> vec" where
  "vadd u v = (fst u + fst v, snd u + snd v)"

definition vscale :: "real \<Rightarrow> vec \<Rightarrow> vec" where
  "vscale c v = (c * fst v, c * snd v)"

text \<open>
  \<^verbatim>\<open>
  if W.grad is not None:
      W.grad.data.zero_()
  \<close>
\<close>

definition zero_grad :: "variable \<Rightarrow> variable" where
  "zero_grad V = (case grad V of None \<Rightarrow> V | Some g \<Rightarrow> V\<lparr>grad := Some (0, 0)\<rparr>)"

text \<open>\<open>loss = loss_fn(W) + alpha * L1_regularization(W) + beta * L2_regularization(W)\<close>;
  \<open>loss_fn\<close> is the global of that name at the time of the call, a parameter here.\<close>

definition objective :: "(dvec \<Rightarrow> dual) \<Rightarrow> real \<Rightarrow> real \<Rightarrow> dvec \<Rightarrow> dual" where
  "objective lf alpha beta W =
     d_add (d_add (lf W) (d_scale alpha (L1_regularization W)))
       (d_scale beta (L2_regularization W))"

text \<open>\<open>loss.backward()\<close> adds the gradient of the loss to \<open>W.grad\<close>, which it creates
  when there is none. The result is the new \<open>W.grad.data\<close> and the variable that holds
  it.\<close>

definition accumulate :: "vec option \<Rightarrow> vec \<Rightarrow> vec" where
  "accumulate old g = (case old of None \<Rightarrow> g | Some g0 \<Rightarrow> vadd g0 g)"

definition backward :: "dual \<Rightarrow> variable \<Rightarrow> vec \<times> variable" where
  "backward l V = (let g = accumulate (grad V) (gradient l) in (g, V\<lparr>grad := Some g\<rparr>))"

text \<open>
  The state of a call of \<open>train\<close>: its parameter \<open>W\<close>, the store, and the local list
  \<open>guesses\<close>, whose elements are the arrays \<open>W.data.numpy()\<close>, that is, addresses.
\<close>

record train_state =
  param :: variable
  heap :: store
  guesses :: "nat list"

text \<open>
  One iteration of the loop:
  \<^verbatim>\<open>
  if W.grad is not None:
      W.grad.data.zero_()
  loss = loss_fn(W) + alpha * L1_regularization(W) + beta * L2_regularization(W)
  loss.backward()
  W.data = W.data - lr * W.grad.data
  guesses.append(W.data.numpy())
  \<close>
\<close>

definition train_body ::
  "(dvec \<Rightarrow> dual) \<Rightarrow> real \<Rightarrow> real \<Rightarrow> real \<Rightarrow> train_state \<Rightarrow> train_state" where
  "train_body lf lr alpha beta st =
     (let V1 = zero_grad (param st);
          loss = objective lf alpha beta (leaf (heap st ! data V1));
          (g, V2) = backward loss V1;
          (t, h) = new_tensor (vsub (heap st ! data V2) (vscale lr g)) (heap st);
          V3 = V2\<lparr>data := t\<rparr>
      in \<lparr>param = V3, heap = h, guesses = guesses st @ [data V3]\<rparr>)"

text \<open>\<open>range(n)\<close> is empty for a negative \<open>n\<close>.\<close>

definition range_py :: "int \<Rightarrow> nat list" where
  "range_py n = [0..<nat n]"

text \<open>The state after the loop has run through the indices \<open>is\<close>.\<close>

definition train_loop ::
  "(dvec \<Rightarrow> dual) \<Rightarrow> real \<Rightarrow> real \<Rightarrow> real \<Rightarrow> nat list \<Rightarrow> train_state \<Rightarrow> train_state" where
  "train_loop lf lr alpha beta is st = fold (\<lambda>i. train_body lf lr alpha beta) is st"

text \<open>
  \<^verbatim>\<open>
  def train(W, lr, alpha, beta, num_steps):
      guesses = []
      for i in range(num_steps):
          ...
      return guesses
  \<close>
  The call returns \<open>guesses\<close>; the final state also holds what the call did to \<open>W\<close> and
  to the store. The parameter \<open>s\<close> is the store at the time of the call.
\<close>

definition train ::
  "(dvec \<Rightarrow> dual) \<Rightarrow> variable \<Rightarrow> real \<Rightarrow> real \<Rightarrow> real \<Rightarrow> int \<Rightarrow> store \<Rightarrow> train_state" where
  "train lf W lr alpha beta num_steps s =
     train_loop lf lr alpha beta (range_py num_steps) \<lparr>param = W, heap = s, guesses = []\<rparr>"

text \<open>The weights a variable holds, and the contents of the \<open>i\<close>-th returned array.\<close>

definition current :: "train_state \<Rightarrow> vec" where
  "current st = heap st ! data (param st)"

definition snapshot :: "train_state \<Rightarrow> nat \<Rightarrow> vec" where
  "snapshot st i = heap st ! (guesses st ! i)"

text \<open>One step of gradient descent on the weights alone.\<close>

definition gd_step :: "(dvec \<Rightarrow> dual) \<Rightarrow> real \<Rightarrow> real \<Rightarrow> real \<Rightarrow> vec \<Rightarrow> vec" where
  "gd_step lf lr alpha beta w =
     vsub w (vscale lr (gradient (objective lf alpha beta (leaf w))))"

text \<open>
  The state of the call \<open>train(W, lr, alpha, beta, num_steps)\<close> when its loop has run
  through the first \<open>k\<close> indices of \<open>range(num_steps)\<close>.
\<close>

definition state_after ::
  "(dvec \<Rightarrow> dual) \<Rightarrow> variable \<Rightarrow> real \<Rightarrow> real \<Rightarrow> real \<Rightarrow> int \<Rightarrow> store \<Rightarrow> nat \<Rightarrow> train_state"
  where
  "state_after lf W lr alpha beta num_steps s k =
     train_loop lf lr alpha beta (take k (range_py num_steps))
       \<lparr>param = W, heap = s, guesses = []\<rparr>"

section \<open>The cells of the notebook\<close>

text \<open>
  \<^verbatim>\<open>
  initial_guess = torch.Tensor([8,5])
  W = Variable(initial_guess, requires_grad=True)
  W_l1_reg = Variable(initial_guess.clone(), requires_grad=True)
  W_l2_reg = Variable(initial_guess.clone(), requires_grad=True)
  lr = 0.04
  alpha = 0.75
  beta = 0.75
  num_steps = 1000
  \<close>
\<close>

record notebook =
  tensors :: store
  initial_guess :: nat
  W :: variable
  W_l1_reg :: variable
  W_l2_reg :: variable

definition setup_cell :: notebook where
  "setup_cell =
     (let (t0, s0) = new_tensor (8, 5) [];
          (t1, s1) = clone t0 s0;
          (t2, s2) = clone t0 s1
      in \<lparr>tensors = s2, initial_guess = t0, W = Variable t0,
          W_l1_reg = Variable t1, W_l2_reg = Variable t2\<rparr>)"

definition lr :: real where "lr = 0.04"
definition alpha :: real where "alpha = 0.75"
definition beta :: real where "beta = 0.75"
definition num_steps :: int where "num_steps = 1000"

text \<open>
  \<^verbatim>\<open>
  guesses = train(W, lr, alpha=0, beta=0, num_steps=num_steps)
  guesses_l1_reg = train(W_l1_reg, lr, alpha=alpha, beta=0, num_steps=num_steps)
  guesses_l2_reg = train(W_l2_reg, lr, alpha=0,     beta=beta, num_steps=num_steps)
  \<close>
  Each run starts in the store the run before it left.
\<close>

definition run_unreg :: train_state where
  "run_unreg = train loss_fn (W setup_cell) lr 0 0 num_steps (tensors setup_cell)"

definition run_l1_reg :: train_state where
  "run_l1_reg = train loss_fn (W_l1_reg setup_cell) lr alpha 0 num_steps (heap run_unreg)"

definition run_l2_reg :: train_state where
  "run_l2_reg = train loss_fn (W_l2_reg setup_cell) lr 0 beta num_steps (heap run_l1_reg)"

definition training_cell :: notebook where
  "training_cell =
     setup_cell\<lparr>tensors := heap run_l2_reg, W := param run_unreg,
       W_l1_reg := param run_l1_reg, W_l2_reg := param run_l2_reg\<rparr>"

text \<open>
  With the loss redefined:
  \<^verbatim>\<open>
  W = Variable(initial_guess, requires_grad=True)
  guesses_l1_reg = train(W, lr, alpha=alpha, beta=0, num_steps=num_steps)
  \<close>
\<close>

definition run_sparse :: train_state where
  "run_sparse =
     train loss_fn_sparse (Variable (initial_guess training_cell)) lr alpha 0 num_steps
       (tensors training_cell)"




section \<open>Values of the loss and of the regularizers\<close>

lemma val_loss_fn_leaf:
  "val (loss_fn (leaf w)) = 0.5 * (fst w - 3)\<^sup>2 + 2.5 * (snd w - 2)\<^sup>2"
  by (simp add: loss_fn_def leaf_def d_add_def d_scale_def d_pow_def d_sub_c_def)

lemma loss_value_eq:
  "loss_value w = 0.5 * (fst w - 3)\<^sup>2 + 2.5 * (snd w - 2)\<^sup>2"
  by (simp add: loss_value_def loss_fn_def plain_def d_add_def d_scale_def d_pow_def
      d_sub_c_def)

text \<open>
  C6. Both definitions of \<open>L1_regularization\<close>, the one on numpy arrays and the one on
  tensors, return the sum of the absolute values of the two weights.
\<close>

theorem L1_regularization_sum_abs:
  "L1_regularization_np (w0, w1) = \<bar>w0\<bar> + \<bar>w1\<bar>
   \<and> val (L1_regularization (leaf (w0, w1))) = \<bar>w0\<bar> + \<bar>w1\<bar>
   \<and> val (L1_regularization (plain (w0, w1))) = \<bar>w0\<bar> + \<bar>w1\<bar>"
  by (simp add: L1_regularization_np_def L1_regularization_def norm_1_def d_add_def
      d_abs_def leaf_def plain_def)

text \<open>
  C2. The claim is that every \<open>L2_regularization\<close> returns the sum of the squared
  weights. The definition of the training cell does. The definition of the first cell
  takes the square root of that sum: at the weights \<open>(3, 4)\<close> it returns 5, and the sum
  of the squares is 25.
\<close>

theorem L2_regularization_np_takes_sqrt:
  "L2_regularization_np (3, 4) = 5
   \<and> L2_regularization_np (3, 4) \<noteq> 3\<^sup>2 + 4\<^sup>2
   \<and> val (L2_regularization (leaf (3, 4))) = 3\<^sup>2 + 4\<^sup>2"
proof -
  have "(3::real)\<^sup>2 + 4\<^sup>2 = 5\<^sup>2" by simp
  then have "L2_regularization_np (3, 4) = 5"
    by (simp add: L2_regularization_np_def)
  moreover have "val (L2_regularization (leaf (3, 4))) = 3\<^sup>2 + 4\<^sup>2"
    by (simp add: L2_regularization_def sum_vec_def pow_vec_def d_add_def d_pow_def
        leaf_def)
  ultimately show ?thesis by simp
qed

section \<open>The stored gradient is the gradient of the loss\<close>

text \<open>
  Where no weight is 0, the two numbers that the backward pass stores are the partial
  derivatives of the value of the loss.
\<close>

lemma abs_has_derivative_sgn:
  fixes x :: real
  assumes "x \<noteq> 0"
  shows "((\<lambda>y. \<bar>y\<bar>) has_real_derivative sgn x) (at x)"
proof (cases "0 < x")
  case True
  have "eventually (\<lambda>y. \<bar>y\<bar> = y) (nhds x)"
    unfolding eventually_nhds using True by (intro exI [of _ "{0<..}"]) auto
  moreover have "((\<lambda>y. y) has_real_derivative 1) (at x)"
    by (rule DERIV_ident)
  ultimately have "((\<lambda>y. \<bar>y\<bar>) has_real_derivative 1) (at x)"
    by (simp add: DERIV_cong_ev)
  then show ?thesis using True by simp
next
  case False
  with assms have neg: "x < 0" by simp
  have "eventually (\<lambda>y. \<bar>y\<bar> = - y) (nhds x)"
    unfolding eventually_nhds using neg by (intro exI [of _ "{..<0}"]) auto
  moreover have "((\<lambda>y. - y) has_real_derivative - 1) (at x)"
    by (intro derivative_eq_intros) simp_all
  ultimately have "((\<lambda>y. \<bar>y\<bar>) has_real_derivative - 1) (at x)"
    by (simp add: DERIV_cong_ev)
  then show ?thesis using neg by simp
qed

lemma val_objective:
  "val (objective loss_fn a b (leaf (x, y)))
     = 0.5 * (x - 3)\<^sup>2 + 2.5 * (y - 2)\<^sup>2 + a * (\<bar>x\<bar> + \<bar>y\<bar>) + b * (x\<^sup>2 + y\<^sup>2)"
  by (simp add: objective_def loss_fn_def L1_regularization_def L2_regularization_def
      norm_1_def sum_vec_def pow_vec_def d_add_def d_scale_def d_pow_def d_sub_c_def d_abs_def
      leaf_def)

lemma val_objective_sparse:
  "val (objective loss_fn_sparse a b (leaf (x, y)))
     = 0.5 * (x - 0.3)\<^sup>2 + 2.5 * (y - 2)\<^sup>2 + a * (\<bar>x\<bar> + \<bar>y\<bar>) + b * (x\<^sup>2 + y\<^sup>2)"
  by (simp add: objective_def loss_fn_sparse_def L1_regularization_def L2_regularization_def
      norm_1_def sum_vec_def pow_vec_def d_add_def d_scale_def d_pow_def d_sub_c_def d_abs_def
      leaf_def)

lemma gradient_objective:
  "gradient (objective loss_fn a b (leaf (x, y)))
     = ((x - 3) + a * sgn x + b * (2 * x), 5 * (y - 2) + a * sgn y + b * (2 * y))"
  by (simp add: objective_def loss_fn_def L1_regularization_def L2_regularization_def
      norm_1_def sum_vec_def pow_vec_def d_add_def d_scale_def d_pow_def d_sub_c_def d_abs_def
      leaf_def gradient_def)

lemma gradient_objective_sparse:
  "gradient (objective loss_fn_sparse a b (leaf (x, y)))
     = ((x - 0.3) + a * sgn x + b * (2 * x), 5 * (y - 2) + a * sgn y + b * (2 * y))"
  by (simp add: objective_def loss_fn_sparse_def L1_regularization_def L2_regularization_def
      norm_1_def sum_vec_def pow_vec_def d_add_def d_scale_def d_pow_def d_sub_c_def d_abs_def
      leaf_def gradient_def)

lemma backward_is_partial_derivative_0:
  assumes "x \<noteq> 0"
  shows "((\<lambda>u. val (objective loss_fn a b (leaf (u, y))))
           has_real_derivative fst (gradient (objective loss_fn a b (leaf (x, y))))) (at x)"
  unfolding val_objective gradient_objective fst_conv
  by (rule derivative_eq_intros abs_has_derivative_sgn assms refl | simp)+

lemma backward_is_partial_derivative_1:
  assumes "y \<noteq> 0"
  shows "((\<lambda>u. val (objective loss_fn a b (leaf (x, u))))
           has_real_derivative snd (gradient (objective loss_fn a b (leaf (x, y))))) (at y)"
  unfolding val_objective gradient_objective snd_conv
  by (rule derivative_eq_intros abs_has_derivative_sgn assms refl | simp)+

lemma backward_sparse_is_partial_derivative_0:
  assumes "x \<noteq> 0"
  shows "((\<lambda>u. val (objective loss_fn_sparse a b (leaf (u, y))))
           has_real_derivative fst (gradient (objective loss_fn_sparse a b (leaf (x, y))))) (at x)"
  unfolding val_objective_sparse gradient_objective_sparse fst_conv
  by (rule derivative_eq_intros abs_has_derivative_sgn assms refl | simp)+

lemma backward_sparse_is_partial_derivative_1:
  assumes "y \<noteq> 0"
  shows "((\<lambda>u. val (objective loss_fn_sparse a b (leaf (x, u))))
           has_real_derivative snd (gradient (objective loss_fn_sparse a b (leaf (x, y))))) (at y)"
  unfolding val_objective_sparse gradient_objective_sparse snd_conv
  by (rule derivative_eq_intros abs_has_derivative_sgn assms refl | simp)+

section \<open>What the training loop does to the store\<close>

lemma accumulate_zero_grad: "accumulate (grad (zero_grad V)) g = g"
  by (cases "grad V") (simp_all add: accumulate_def zero_grad_def vadd_def)

lemma data_zero_grad: "data (zero_grad V) = data V"
  by (cases "grad V") (simp_all add: zero_grad_def)

lemma train_body_eq:
  "train_body lf eta a b st =
     \<lparr>param = \<lparr>data = length (heap st),
               grad = Some (gradient (objective lf a b (leaf (current st))))\<rparr>,
      heap = heap st @ [gd_step lf eta a b (current st)],
      guesses = guesses st @ [length (heap st)]\<rparr>"
  by (simp add: train_body_def Let_def new_tensor_def backward_def accumulate_zero_grad
      data_zero_grad gd_step_def current_def)

lemma train_loop_upt:
  "train_loop lf eta a b [0..<k] st =
     (if k = 0 then st else
      \<lparr>param = \<lparr>data = length (heap st) + k - 1,
                grad = Some (gradient (objective lf a b
                         (leaf ((gd_step lf eta a b ^^ (k - 1)) (current st)))))\<rparr>,
       heap = heap st @ map (\<lambda>j. (gd_step lf eta a b ^^ Suc j) (current st)) [0..<k],
       guesses = guesses st @ map (\<lambda>j. length (heap st) + j) [0..<k]\<rparr>)"
proof (induction k)
  case 0
  show ?case by (simp add: train_loop_def)
next
  case (Suc k)
  have step: "train_loop lf eta a b [0..<Suc k] st
      = train_body lf eta a b (train_loop lf eta a b [0..<k] st)"
    by (simp add: train_loop_def)
  show ?case
  proof (cases "k = 0")
    case True
    then show ?thesis
      by (simp add: step train_loop_def train_body_eq)
  next
    case False
    let ?st = "train_loop lf eta a b [0..<k] st"
    have h: "heap ?st = heap st @ map (\<lambda>j. (gd_step lf eta a b ^^ Suc j) (current st)) [0..<k]"
      using False Suc.IH by simp
    have g: "guesses ?st = guesses st @ map (\<lambda>j. length (heap st) + j) [0..<k]"
      using False Suc.IH by simp
    have d: "data (param ?st) = length (heap st) + k - 1"
      using False Suc.IH by simp
    have cur: "current ?st = (gd_step lf eta a b ^^ k) (current st)"
    proof -
      let ?f = "\<lambda>j. (gd_step lf eta a b ^^ Suc j) (current st)"
      have "current ?st = (heap st @ map ?f [0..<k]) ! (length (heap st) + k - 1)"
        by (simp only: current_def h d)
      also have "length (heap st) + k - 1 = length (heap st) + (k - 1)"
        using False by simp
      also have "(heap st @ map ?f [0..<k]) ! (length (heap st) + (k - 1))
          = map ?f [0..<k] ! (k - 1)"
        by (rule nth_append_length_plus)
      also have "\<dots> = (gd_step lf eta a b ^^ Suc (k - 1)) (current st)"
        using False by (simp del: funpow.simps)
      also have "Suc (k - 1) = k"
        using False by simp
      finally show ?thesis .
    qed
    show ?thesis
      unfolding step train_body_eq cur h g by simp
  qed
qed


lemma train_loop_heap:
  "heap (train_loop lf eta a b [0..<k] st)
     = heap st @ map (\<lambda>j. (gd_step lf eta a b ^^ Suc j) (current st)) [0..<k]"
  by (simp add: train_loop_upt)

lemma train_loop_guesses:
  "guesses (train_loop lf eta a b [0..<k] st)
     = guesses st @ map (\<lambda>j. length (heap st) + j) [0..<k]"
  by (simp add: train_loop_upt)

lemma train_loop_current:
  "current (train_loop lf eta a b [0..<k] st) = (gd_step lf eta a b ^^ k) (current st)"
proof (cases "k = 0")
  case True
  then show ?thesis by (simp add: train_loop_def)
next
  case False
  let ?f = "\<lambda>j. (gd_step lf eta a b ^^ Suc j) (current st)"
  have d: "data (param (train_loop lf eta a b [0..<k] st)) = length (heap st) + (k - 1)"
    using False by (simp add: train_loop_upt)
  have "current (train_loop lf eta a b [0..<k] st)
      = (heap st @ map ?f [0..<k]) ! (length (heap st) + (k - 1))"
    by (simp only: current_def d train_loop_heap)
  also have "\<dots> = map ?f [0..<k] ! (k - 1)"
    by (rule nth_append_length_plus)
  also have "\<dots> = (gd_step lf eta a b ^^ Suc (k - 1)) (current st)"
    using False by (simp del: funpow.simps)
  also have "Suc (k - 1) = k"
    using False by simp
  finally show ?thesis .
qed

lemma take_range_py: "take k (range_py n) = [0..<min k (nat n)]"
  by (simp add: range_py_def min_def)

lemma train_state_after: "train lf V eta a b n s = state_after lf V eta a b n s (nat n)"
  by (simp add: train_def state_after_def range_py_def)

lemma state_after_heap:
  "heap (state_after lf V eta a b n s k)
     = s @ map (\<lambda>j. (gd_step lf eta a b ^^ Suc j) (s ! data V)) [0..<min k (nat n)]"
  by (simp only: state_after_def take_range_py train_loop_heap) (simp add: current_def)

lemma state_after_guesses:
  "guesses (state_after lf V eta a b n s k) = map (\<lambda>j. length s + j) [0..<min k (nat n)]"
  by (simp only: state_after_def take_range_py train_loop_guesses) simp

lemma state_after_current:
  "current (state_after lf V eta a b n s k) = (gd_step lf eta a b ^^ min k (nat n)) (s ! data V)"
  by (simp only: state_after_def take_range_py train_loop_current) (simp add: current_def)

lemma train_heap:
  "heap (train lf V eta a b n s)
     = s @ map (\<lambda>j. (gd_step lf eta a b ^^ Suc j) (s ! data V)) [0..<nat n]"
  by (simp add: train_state_after state_after_heap)

lemma train_guesses:
  "guesses (train lf V eta a b n s) = map (\<lambda>j. length s + j) [0..<nat n]"
  by (simp add: train_state_after state_after_guesses)


lemma train_snapshot:
  assumes "i < nat n"
  shows "snapshot (train lf V eta a b n s) i = (gd_step lf eta a b ^^ Suc i) (s ! data V)"
proof -
  have "guesses (train lf V eta a b n s) ! i = length s + i"
    using assms by (simp add: train_guesses)
  then have "snapshot (train lf V eta a b n s) i
      = (s @ map (\<lambda>j. (gd_step lf eta a b ^^ Suc j) (s ! data V)) [0..<nat n]) ! (length s + i)"
    by (simp only: snapshot_def train_heap)
  also have "\<dots> = map (\<lambda>j. (gd_step lf eta a b ^^ Suc j) (s ! data V)) [0..<nat n] ! i"
    by (rule nth_append_length_plus)
  also have "\<dots> = (gd_step lf eta a b ^^ Suc i) (s ! data V)"
    using assms by (simp del: funpow.simps)
  finally show ?thesis .
qed






lemma fold_const_funpow: "fold (\<lambda>i. f) xs st = (f ^^ length xs) st"
proof (induction xs arbitrary: st)
  case Nil
  show ?case by simp
next
  case (Cons x xs)
  have "fold (\<lambda>i. f) (x # xs) st = (f ^^ length xs) (f st)"
    by (simp add: Cons.IH)
  also have "\<dots> = (f ^^ Suc (length xs)) st"
    by (simp add: funpow_swap1)
  finally show ?case by simp
qed



lemma length_train_heap: "length (heap (train lf V eta a b n s)) = length s + nat n"
  by (simp add: train_heap)










section \<open>The training loop and its snapshots\<close>

text \<open>
  C3. \<open>train(W, lr, alpha, beta, num_steps)\<close> returns a list of \<open>num_steps\<close> arrays
  (none for a negative \<open>num_steps\<close>), and when the call has returned, the \<open>i\<close>-th of
  them (counted from 0) holds the weights that \<open>W\<close> held when the loop had run through
  its first \<open>i + 1\<close> steps.
\<close>

theorem train_returns_snapshots:
  assumes "i < nat n"
  shows "length (guesses (train lf V eta a b n s)) = nat n
    \<and> snapshot (train lf V eta a b n s) i = current (state_after lf V eta a b n s (Suc i))"
proof -
  have "min (Suc i) (nat n) = Suc i"
    using assms by simp
  then have "current (state_after lf V eta a b n s (Suc i))
      = (gd_step lf eta a b ^^ Suc i) (s ! data V)"
    by (simp only: state_after_current)
  then show ?thesis
    using assms by (simp only: train_snapshot train_guesses) simp
qed

theorem train_returns_snapshots_witness:
  "(1::nat) < nat 2
   \<and> length (guesses (train loss_fn (W setup_cell) lr 0 0 2 (tensors setup_cell))) = nat 2
   \<and> snapshot (train loss_fn (W setup_cell) lr 0 0 2 (tensors setup_cell)) 1
       = current (state_after loss_fn (W setup_cell) lr 0 0 2 (tensors setup_cell) (Suc 1))"
  using train_returns_snapshots [of 1 2 loss_fn "W setup_cell" lr 0 0 "tensors setup_cell"]
  by simp




text \<open>
  C8. A call of \<open>train\<close> returns, and it is the loop body applied once for each
  element of \<open>range(num_steps)\<close>, that is \<open>num_steps\<close> times (and not at all when
  \<open>num_steps\<close> is negative); each application stores one new weight vector and appends
  one entry. With \<open>num_steps = 1000\<close> each of the four runs of the notebook makes 1000
  steps.
\<close>

theorem train_runs_num_steps_iterations:
  "train lf V eta a b n s
     = (train_body lf eta a b ^^ nat n) \<lparr>param = V, heap = s, guesses = []\<rparr>
   \<and> length (range_py n) = nat n
   \<and> length (heap (train lf V eta a b n s)) = length s + nat n
   \<and> length (guesses (train lf V eta a b n s)) = nat n
   \<and> length (guesses run_unreg) = 1000 \<and> length (guesses run_l1_reg) = 1000
   \<and> length (guesses run_l2_reg) = 1000 \<and> length (guesses run_sparse) = 1000"
proof -
  have "train lf V eta a b n s
      = (train_body lf eta a b ^^ length (range_py n)) \<lparr>param = V, heap = s, guesses = []\<rparr>"
    by (simp only: train_def train_loop_def fold_const_funpow)
  moreover have len: "length (range_py n) = nat n"
    by (simp add: range_py_def)
  moreover have "length (guesses run_unreg) = 1000" "length (guesses run_l1_reg) = 1000"
      "length (guesses run_l2_reg) = 1000" "length (guesses run_sparse) = 1000"
    by (simp_all add: run_unreg_def run_l1_reg_def run_l2_reg_def run_sparse_def train_guesses
        num_steps_def)
  moreover have "length (heap (train lf V eta a b n s)) = length s + nat n"
    by (rule length_train_heap)
  moreover have "length (guesses (train lf V eta a b n s)) = nat n"
    by (simp add: train_guesses)
  ultimately show ?thesis
    by (simp only: simp_thms)
qed


section \<open>The data loss\<close>

lemma square_convex:
  fixes x y t :: real
  assumes "0 \<le> t" "t \<le> 1"
  shows "((1 - t) * x + t * y)\<^sup>2 \<le> (1 - t) * x\<^sup>2 + t * y\<^sup>2"
proof -
  have "(1 - t) * x\<^sup>2 + t * y\<^sup>2 - ((1 - t) * x + t * y)\<^sup>2 = t * (1 - t) * (x - y)\<^sup>2"
    by (simp add: power2_eq_square algebra_simps)
  moreover have "0 \<le> t * (1 - t) * (x - y)\<^sup>2"
    using assms by simp
  ultimately show ?thesis by linarith
qed

lemma weighted_sum:
  fixes A B C D t :: real
  shows "0.5 * ((1 - t) * A + t * B) + 2.5 * ((1 - t) * C + t * D)
    = (1 - t) * (0.5 * A + 2.5 * C) + t * (0.5 * B + 2.5 * D)"
  by (simp add: field_simps)

text \<open>
  C7. The data loss \<open>0.5*(w0-3)^2 + 2.5*(w1-2)^2\<close> is convex (its value at a point
  between two points is at most the weighted mean of its values at the two points), it is
  never negative, it is 0 at \<open>(3, 2)\<close> and nowhere else, and so \<open>(3, 2)\<close> is its only
  global minimum.
\<close>

theorem loss_fn_convex_minimum:
  assumes "0 \<le> t" "t \<le> 1"
  shows "loss_value ((1 - t) * u0 + t * v0, (1 - t) * u1 + t * v1)
           \<le> (1 - t) * loss_value (u0, u1) + t * loss_value (v0, v1)
    \<and> 0 \<le> loss_value (w0, w1)
    \<and> (loss_value (w0, w1) = 0 \<longleftrightarrow> (w0, w1) = (3, 2))
    \<and> loss_value (3, 2) \<le> loss_value (w0, w1)"
proof -
  have a: "((1 - t) * u0 + t * v0 - 3)\<^sup>2 \<le> (1 - t) * (u0 - 3)\<^sup>2 + t * (v0 - 3)\<^sup>2"
    using square_convex [OF assms, of "u0 - 3" "v0 - 3"] by (simp add: algebra_simps)
  have b: "((1 - t) * u1 + t * v1 - 2)\<^sup>2 \<le> (1 - t) * (u1 - 2)\<^sup>2 + t * (v1 - 2)\<^sup>2"
    using square_convex [OF assms, of "u1 - 2" "v1 - 2"] by (simp add: algebra_simps)
  have "0.5 * ((1 - t) * u0 + t * v0 - 3)\<^sup>2 + 2.5 * ((1 - t) * u1 + t * v1 - 2)\<^sup>2
      \<le> 0.5 * ((1 - t) * (u0 - 3)\<^sup>2 + t * (v0 - 3)\<^sup>2)
        + 2.5 * ((1 - t) * (u1 - 2)\<^sup>2 + t * (v1 - 2)\<^sup>2)"
    by (intro add_mono mult_left_mono a b) simp_all
  also have "\<dots> = (1 - t) * (0.5 * (u0 - 3)\<^sup>2 + 2.5 * (u1 - 2)\<^sup>2)
        + t * (0.5 * (v0 - 3)\<^sup>2 + 2.5 * (v1 - 2)\<^sup>2)"
    by (rule weighted_sum)
  finally have convex: "loss_value ((1 - t) * u0 + t * v0, (1 - t) * u1 + t * v1)
      \<le> (1 - t) * loss_value (u0, u1) + t * loss_value (v0, v1)"
    by (simp add: loss_value_eq)
  have nonneg: "0 \<le> loss_value (w0, w1)"
    by (simp add: loss_value_eq)
  have "0.5 * (w0 - 3)\<^sup>2 + 2.5 * (w1 - 2)\<^sup>2 = 0 \<longleftrightarrow> (w0 - 3)\<^sup>2 = 0 \<and> (w1 - 2)\<^sup>2 = 0"
    by (rule add_nonneg_eq_0_iff [THEN trans]) simp_all
  then have zero: "loss_value (w0, w1) = 0 \<longleftrightarrow> (w0, w1) = (3, 2)"
    by (simp add: loss_value_eq)
  have "loss_value (3, 2) = 0"
    by (simp add: loss_value_eq)
  with convex nonneg zero show ?thesis by simp
qed

theorem loss_fn_convex_minimum_witness:
  "(0::real) \<le> 1 / 2 \<and> (1 / 2 :: real) \<le> 1
   \<and> loss_value ((1 - 1 / 2) * 0 + 1 / 2 * 6, (1 - 1 / 2) * 0 + 1 / 2 * 4)
        \<le> (1 - 1 / 2) * loss_value (0, 0) + 1 / 2 * loss_value (6, 4)
   \<and> 0 \<le> loss_value (8, 5)
   \<and> (loss_value (8, 5) = 0 \<longleftrightarrow> ((8, 5) :: vec) = (3, 2))
   \<and> loss_value (3, 2) \<le> loss_value (8, 5)"
  using loss_fn_convex_minimum [of "1 / 2" 0 6 0 4 8 5] by simp

section \<open>The unregularized run\<close>










section \<open>The L1-regularized run on the redefined loss\<close>




































end
